theory Spec2Isabelle
  imports Main "HOL-Library.Sublist" "HOL-Library.Multiset"
begin

section \<open>Python values and string operations used by \<open>scripts/security_audit.py\<close>\<close>

text \<open>
  The auditor works on the tree that \<open>yaml.safe_load\<close> returns. The model keeps the
  shapes the script can tell apart: \<open>None\<close>, booleans, integers, strings, lists and
  dictionaries. A dictionary is an association list in insertion order (Python dictionaries
  iterate in insertion order); keys are values themselves, since YAML allows scalar keys of
  any kind. Floats, timestamps and binary scalars are not modelled.

  A Python \<open>str\<close> is modelled as an Isabelle \<open>string\<close>. Case conversion is the ASCII one:
  characters outside \<open>A\<close>..\<open>Z\<close> are left as they are.
\<close>

datatype yaml =
    YNone
  | YBool bool
  | YInt int
  | YStr string
  | YList "yaml list"
  | YDict "(yaml \<times> yaml) list"

text \<open>Exceptions carry the message that \<open>str(e)\<close> renders.\<close>

datatype pyexc = AttributeError string | TypeError string | OSError string | YAMLError string

fun str_exc :: "pyexc \<Rightarrow> string" where
  "str_exc (AttributeError m) = m"
| "str_exc (TypeError m) = m"
| "str_exc (OSError m) = m"
| "str_exc (YAMLError m) = m"

abbreviation (input) sq :: char where
  "sq \<equiv> CHR 0x27"

definition lower_char :: "char \<Rightarrow> char" where
  "lower_char c =
     (case map_of (zip ''ABCDEFGHIJKLMNOPQRSTUVWXYZ'' ''abcdefghijklmnopqrstuvwxyz'') c of
        Some l \<Rightarrow> l
      | None \<Rightarrow> c)"

definition lower :: "string \<Rightarrow> string" where
  "lower s = map lower_char s"

text \<open>\<open>s.startswith(p)\<close>, \<open>s.endswith(p)\<close> and \<open>p in s\<close> on strings.\<close>

fun startswith :: "string \<Rightarrow> string \<Rightarrow> bool" where
  "startswith s [] = True"
| "startswith [] (p # ps) = False"
| "startswith (c # s) (p # ps) = (c = p \<and> startswith s ps)"

definition endswith :: "string \<Rightarrow> string \<Rightarrow> bool" where
  "endswith s p = startswith (rev s) (rev p)"

fun contains :: "string \<Rightarrow> string \<Rightarrow> bool" where
  "contains [] p = (p = [])"
| "contains (c # s) p = (startswith (c # s) p \<or> contains s p)"

text \<open>\<open>s.split(c)\<close> for a one-character separator: always at least one component.\<close>

fun split_on :: "char \<Rightarrow> string \<Rightarrow> string list" where
  "split_on c [] = [[]]"
| "split_on c (x # xs) =
     (if x = c then [] # split_on c xs
      else (case split_on c xs of
              [] \<Rightarrow> [[x]]
            | w # ws \<Rightarrow> (x # w) # ws))"

text \<open>\<open>s.split(c, 1)\<close>: the text before the first separator and the text after it.\<close>

definition split_once :: "char \<Rightarrow> string \<Rightarrow> string \<times> string" where
  "split_once c s = (takeWhile (\<lambda>x. x \<noteq> c) s, tl (dropWhile (\<lambda>x. x \<noteq> c) s))"

text \<open>\<open>s.count(c)\<close> for a one-character argument.\<close>

definition count_char :: "char \<Rightarrow> string \<Rightarrow> nat" where
  "count_char c s = length (filter (\<lambda>x. x = c) s)"

subsection \<open>Rendering values: \<open>str(v)\<close> and \<open>repr(v)\<close>\<close>

fun digits :: "nat \<Rightarrow> string" where
  "digits n =
     (if n < 10 then [''0123456789'' ! n]
      else digits (n div 10) @ [''0123456789'' ! (n mod 10)])"

declare digits.simps [simp del]

definition str_int :: "int \<Rightarrow> string" where
  "str_int i = (if i < 0 then CHR ''-'' # digits (nat (- i)) else digits (nat i))"

definition hex2 :: "char \<Rightarrow> string" where
  "hex2 c = (let n = (of_char c :: nat)
             in [''0123456789abcdef'' ! (n div 16), ''0123456789abcdef'' ! (n mod 16)])"

text \<open>
  \<open>repr\<close> of a string: double quotes when the text has a single quote and no double
  quote, single quotes otherwise; backslash, the chosen quote and control characters are
  escaped.
\<close>

definition repr_char :: "char \<Rightarrow> char \<Rightarrow> string" where
  "repr_char q c =
     (if c = CHR 0x5C then [CHR 0x5C, CHR 0x5C]
      else if c = q then [CHR 0x5C, q]
      else if c = CHR 0x0A then [CHR 0x5C, CHR ''n'']
      else if c = CHR 0x0D then [CHR 0x5C, CHR ''r'']
      else if c = CHR 0x09 then [CHR 0x5C, CHR ''t'']
      else if (of_char c :: nat) < 32 \<or> c = CHR 0x7F then [CHR 0x5C, CHR ''x''] @ hex2 c
      else [c])"

definition repr_str :: "string \<Rightarrow> string" where
  "repr_str s =
     (let q = (if sq \<in> set s \<and> CHR 0x22 \<notin> set s then CHR 0x22 else sq)
      in [q] @ concat (map (repr_char q) s) @ [q])"

fun join :: "string \<Rightarrow> string list \<Rightarrow> string" where
  "join sep [] = []"
| "join sep [x] = x"
| "join sep (x # y # ys) = x @ sep @ join sep (y # ys)"

fun py_repr :: "yaml \<Rightarrow> string" where
  "py_repr YNone = ''None''"
| "py_repr (YBool b) = (if b then ''True'' else ''False'')"
| "py_repr (YInt i) = str_int i"
| "py_repr (YStr s) = repr_str s"
| "py_repr (YList xs) = ''['' @ join '', '' (map py_repr xs) @ '']''"
| "py_repr (YDict kvs) =
     ''{'' @ join '', '' (map (\<lambda>(k, v). py_repr k @ '': '' @ py_repr v) kvs) @ ''}''"

text \<open>\<open>str(v)\<close>, also what an f-string writes for \<open>{v}\<close>.\<close>

definition py_str :: "yaml \<Rightarrow> string" where
  "py_str v = (case v of YStr s \<Rightarrow> s | _ \<Rightarrow> py_repr v)"

definition type_name :: "yaml \<Rightarrow> string" where
  "type_name v =
     (case v of
        YNone \<Rightarrow> ''NoneType''
      | YBool _ \<Rightarrow> ''bool''
      | YInt _ \<Rightarrow> ''int''
      | YStr _ \<Rightarrow> ''str''
      | YList _ \<Rightarrow> ''list''
      | YDict _ \<Rightarrow> ''dict'')"

definition no_attribute :: "yaml \<Rightarrow> string \<Rightarrow> pyexc" where
  "no_attribute v a =
     AttributeError ([sq] @ type_name v @ [sq] @ '' object has no attribute '' @ [sq] @ a @ [sq])"

subsection \<open>Operations that may raise\<close>

text \<open>Truth value of a value in a condition.\<close>

definition truthy :: "yaml \<Rightarrow> bool" where
  "truthy v =
     (case v of
        YNone \<Rightarrow> False
      | YBool b \<Rightarrow> b
      | YInt i \<Rightarrow> i \<noteq> 0
      | YStr s \<Rightarrow> s \<noteq> []
      | YList xs \<Rightarrow> xs \<noteq> []
      | YDict kvs \<Rightarrow> kvs \<noteq> [])"

text \<open>\<open>d.get(k, default)\<close> with a string key: only dictionaries have \<open>get\<close>.\<close>

definition py_get :: "yaml \<Rightarrow> string \<Rightarrow> yaml \<Rightarrow> pyexc + yaml" where
  "py_get d k dflt =
     (case d of
        YDict kvs \<Rightarrow> Inr (case map_of kvs (YStr k) of Some v \<Rightarrow> v | None \<Rightarrow> dflt)
      | _ \<Rightarrow> Inl (no_attribute d ''get''))"

text \<open>\<open>d.items()\<close>.\<close>

definition py_items :: "yaml \<Rightarrow> pyexc + (yaml \<times> yaml) list" where
  "py_items d =
     (case d of
        YDict kvs \<Rightarrow> Inr kvs
      | _ \<Rightarrow> Inl (no_attribute d ''items''))"

text \<open>
  \<open>for x in v\<close>: a list gives its elements, a string its characters (each a string of
  length one), a dictionary its keys; nothing else is iterable.
\<close>

definition py_iter :: "yaml \<Rightarrow> pyexc + yaml list" where
  "py_iter v =
     (case v of
        YList xs \<Rightarrow> Inr xs
      | YStr s \<Rightarrow> Inr (map (\<lambda>c. YStr [c]) s)
      | YDict kvs \<Rightarrow> Inr (map fst kvs)
      | _ \<Rightarrow> Inl (TypeError ([sq] @ type_name v @ [sq] @ '' object is not iterable'')))"

text \<open>
  \<open>p in v\<close> for a string \<open>p\<close>: substring test on a string, membership in a list, key
  membership in a dictionary. A string equals no value of another type.
\<close>

definition str_in :: "string \<Rightarrow> yaml \<Rightarrow> pyexc + bool" where
  "str_in p v =
     (case v of
        YStr s \<Rightarrow> Inr (contains s p)
      | YList xs \<Rightarrow> Inr (YStr p \<in> set xs)
      | YDict kvs \<Rightarrow> Inr (YStr p \<in> set (map fst kvs))
      | _ \<Rightarrow> Inl (TypeError (''argument of type '' @ [sq] @ type_name v @ [sq] @ '' is not iterable'')))"

text \<open>\<open>v.lower()\<close>, \<open>v.endswith(p)\<close> and \<open>v.split('=', 1)\<close>: string methods only.\<close>

definition py_lower :: "yaml \<Rightarrow> pyexc + string" where
  "py_lower v = (case v of YStr s \<Rightarrow> Inr (lower s) | _ \<Rightarrow> Inl (no_attribute v ''lower''))"

definition py_endswith :: "yaml \<Rightarrow> string \<Rightarrow> pyexc + bool" where
  "py_endswith v p = (case v of YStr s \<Rightarrow> Inr (endswith s p) | _ \<Rightarrow> Inl (no_attribute v ''endswith''))"

definition py_split_once :: "yaml \<Rightarrow> char \<Rightarrow> pyexc + string \<times> string" where
  "py_split_once v c = (case v of YStr s \<Rightarrow> Inr (split_once c s) | _ \<Rightarrow> Inl (no_attribute v ''split''))"

text \<open>
  \<open>any(f(x) for x in xs)\<close>: stops at the first true element, so an element that would
  raise after it is never evaluated.
\<close>

fun py_any :: "('a \<Rightarrow> pyexc + bool) \<Rightarrow> 'a list \<Rightarrow> pyexc + bool" where
  "py_any f [] = Inr False"
| "py_any f (x # xs) =
     (case f x of
        Inl e \<Rightarrow> Inl e
      | Inr True \<Rightarrow> Inr True
      | Inr False \<Rightarrow> py_any f xs)"

section \<open>Findings and the effect of a check\<close>

datatype severity = HIGH | MEDIUM | LOW | INFO | ERROR

record finding =
  severity :: severity
  category :: string
  message :: string
  filepath :: string
  line :: nat

text \<open>
  \<open>self.findings\<close> is only ever appended to. A piece of a check is therefore modelled by
  what it does to that list and how it ends: the findings it appends, in order, and the
  exception it stops with, if any. Findings appended before an exception stay in the list.
\<close>

type_synonym emit = "finding list \<times> pyexc option"

definition skip :: emit where
  "skip = ([], None)"

definition add_finding :: "severity \<Rightarrow> string \<Rightarrow> string \<Rightarrow> string \<Rightarrow> emit" where
  "add_finding sev cat msg file_path =
     ([\<lparr>severity = sev, category = cat, message = msg, filepath = file_path, line = 0\<rparr>], None)"

text \<open>One statement after another: the second runs only if the first did not raise.\<close>

fun seq :: "emit \<Rightarrow> emit \<Rightarrow> emit" where
  "seq (fs, Some e) m = (fs, Some e)"
| "seq (fs, None) (gs, r) = (fs @ gs, r)"

text \<open>Evaluating an expression that may raise, then continuing with its value.\<close>

definition try_val :: "pyexc + 'a \<Rightarrow> ('a \<Rightarrow> emit) \<Rightarrow> emit" where
  "try_val x f = (case x of Inl e \<Rightarrow> ([], Some e) | Inr v \<Rightarrow> f v)"

text \<open>A \<open>for\<close> loop over a list that is already evaluated.\<close>

fun for_each :: "('a \<Rightarrow> emit) \<Rightarrow> 'a list \<Rightarrow> emit" where
  "for_each body [] = skip"
| "for_each body (x # xs) = seq (body x) (for_each body xs)"

text \<open>
  All checks start the same way:
  \<open>services = compose_data.get('services', {})\<close> and then
  \<open>for service_name, service_config in services.items()\<close>.
\<close>

definition for_services :: "yaml \<Rightarrow> (yaml \<Rightarrow> yaml \<Rightarrow> emit) \<Rightarrow> emit" where
  "for_services compose_data body =
     try_val (py_get compose_data ''services'' (YDict [])) (\<lambda>services.
     try_val (py_items services) (\<lambda>items.
     for_each (\<lambda>(service_name, service_config). body service_name service_config) items))"

definition service_msg :: "yaml \<Rightarrow> string \<Rightarrow> string" where
  "service_msg service_name rest = ''Service '' @ [sq] @ py_str service_name @ [sq] @ rest"

section \<open>The checks\<close>

subsection \<open>\<open>check_privileged_containers\<close>\<close>

definition dangerous_caps :: "string list" where
  "dangerous_caps = [''SYS_ADMIN'', ''NET_ADMIN'', ''SYS_PTRACE'', ''SYS_MODULE'']"

definition privileged_service :: "string \<Rightarrow> yaml \<Rightarrow> yaml \<Rightarrow> emit" where
  "privileged_service compose_file service_name service_config =
     try_val (py_get service_config ''privileged'' (YBool False)) (\<lambda>privileged.
     seq (if truthy privileged
          then add_finding HIGH ''Container Security''
                 (service_msg service_name '' runs in privileged mode'') compose_file
          else skip)
     (try_val (py_get service_config ''cap_add'' (YList [])) (\<lambda>cap_add.
      try_val (py_iter cap_add) (\<lambda>caps.
      seq (for_each (\<lambda>cap.
             if cap \<in> set (map YStr dangerous_caps)
             then add_finding MEDIUM ''Container Security''
                    (service_msg service_name ('' has dangerous capability: '' @ py_str cap))
                    compose_file
             else skip) caps)
      (try_val (py_get service_config ''command'' (YStr [])) (\<lambda>command.
       (case command of
          YStr c \<Rightarrow>
            if contains c ''--privileged''
            then add_finding HIGH ''Container Security''
                   (service_msg service_name '' uses --privileged in command'') compose_file
            else skip
        | _ \<Rightarrow> skip)))))))"

definition check_privileged_containers :: "string \<Rightarrow> yaml \<Rightarrow> emit" where
  "check_privileged_containers compose_file compose_data =
     for_services compose_data (privileged_service compose_file)"

subsection \<open>\<open>check_host_network_mode\<close>\<close>

definition host_network_service :: "string \<Rightarrow> yaml \<Rightarrow> yaml \<Rightarrow> emit" where
  "host_network_service compose_file service_name service_config =
     try_val (py_get service_config ''network_mode'' YNone) (\<lambda>network_mode.
     if network_mode = YStr ''host''
     then add_finding MEDIUM ''Network Security''
            (service_msg service_name '' uses host network mode'') compose_file
     else skip)"

definition check_host_network_mode :: "string \<Rightarrow> yaml \<Rightarrow> emit" where
  "check_host_network_mode compose_file compose_data =
     for_services compose_data (host_network_service compose_file)"

subsection \<open>\<open>check_volume_mounts\<close>\<close>

definition dangerous_mounts :: "string list" where
  "dangerous_mounts =
     [''/var/run/docker.sock'', ''/proc'', ''/sys'', ''/etc/passwd'', ''/etc/shadow'',
      ''/etc/sudoers'', ''/root/.ssh'']"

definition volume_findings :: "string \<Rightarrow> yaml \<Rightarrow> yaml \<Rightarrow> emit" where
  "volume_findings compose_file service_name volume =
     (case volume of
        YStr v \<Rightarrow>
          if contains v '':'' then
            (let host_path = hd (split_on CHR '':'' v) in
             seq (for_each (\<lambda>dangerous.
                    if host_path = dangerous
                    then add_finding
                           (if dangerous = ''/var/run/docker.sock'' then HIGH else MEDIUM)
                           ''Volume Security''
                           (service_msg service_name ('' mounts dangerous path: '' @ dangerous))
                           compose_file
                    else skip) dangerous_mounts)
                 (if host_path = ''/'' \<or> startswith host_path ''/home''
                  then add_finding HIGH ''Volume Security''
                         (service_msg service_name ('' has broad filesystem access: '' @ host_path))
                         compose_file
                  else skip))
          else skip
      | YDict kvs \<Rightarrow>
          try_val (py_get volume ''source'' (YStr [])) (\<lambda>source.
          if source \<in> set (map YStr dangerous_mounts)
          then add_finding HIGH ''Volume Security''
                 (service_msg service_name ('' mounts dangerous path: '' @ py_str source))
                 compose_file
          else skip)
      | _ \<Rightarrow> skip)"

definition volume_service :: "string \<Rightarrow> yaml \<Rightarrow> yaml \<Rightarrow> emit" where
  "volume_service compose_file service_name service_config =
     try_val (py_get service_config ''volumes'' (YList [])) (\<lambda>volumes.
     try_val (py_iter volumes) (\<lambda>vs.
     for_each (volume_findings compose_file service_name) vs))"

definition check_volume_mounts :: "string \<Rightarrow> yaml \<Rightarrow> emit" where
  "check_volume_mounts compose_file compose_data =
     for_services compose_data (volume_service compose_file)"

subsection \<open>\<open>check_environment_variables\<close>\<close>

definition secret_patterns :: "string list" where
  "secret_patterns =
     [''password'', ''passwd'', ''secret'', ''key'', ''token'', ''credential'', ''auth'',
      ''private'']"

definition placeholders :: "string list" where
  "placeholders = [''changeme'', ''your-password'', ''example'']"

text \<open>\<open>d[k] = v\<close>: an existing key keeps its position, a new key goes to the end.\<close>

fun dict_set :: "(yaml \<times> yaml) list \<Rightarrow> yaml \<Rightarrow> yaml \<Rightarrow> (yaml \<times> yaml) list" where
  "dict_set [] k v = [(k, v)]"
| "dict_set ((k', v') # kvs) k v =
     (if k' = k then (k, v) # kvs else (k', v') # dict_set kvs k v)"

text \<open>The list form of \<open>environment\<close>: entries without \<open>=\<close> are dropped.\<close>

fun env_from_list :: "(yaml \<times> yaml) list \<Rightarrow> yaml list \<Rightarrow> pyexc + (yaml \<times> yaml) list" where
  "env_from_list env_vars [] = Inr env_vars"
| "env_from_list env_vars (env_var # rest) =
     (case str_in ''='' env_var of
        Inl e \<Rightarrow> Inl e
      | Inr False \<Rightarrow> env_from_list env_vars rest
      | Inr True \<Rightarrow>
          (case py_split_once env_var CHR ''='' of
             Inl e \<Rightarrow> Inl e
           | Inr (key, val) \<Rightarrow> env_from_list (dict_set env_vars (YStr key) (YStr val)) rest))"

definition env_vars_of :: "yaml \<Rightarrow> pyexc + (yaml \<times> yaml) list" where
  "env_vars_of environment =
     (case environment of
        YList xs \<Rightarrow> env_from_list [] xs
      | YDict kvs \<Rightarrow> Inr kvs
      | _ \<Rightarrow> Inr [])"

definition secret_finding :: "string \<Rightarrow> yaml \<Rightarrow> yaml \<Rightarrow> emit" where
  "secret_finding compose_file service_name env_key =
     add_finding HIGH ''Secret Management''
       (service_msg service_name ('' may have hardcoded secret in '' @ py_str env_key))
       compose_file"

text \<open>The body of the loop over \<open>secret_patterns\<close> for one variable and one pattern.\<close>

definition env_pattern_findings :: "string \<Rightarrow> yaml \<Rightarrow> yaml \<Rightarrow> yaml \<Rightarrow> string \<Rightarrow> emit" where
  "env_pattern_findings compose_file service_name env_key env_value pattern =
     try_val (py_lower env_key) (\<lambda>k.
     if contains k (lower pattern) then
       (case env_value of
          YStr v \<Rightarrow>
            if \<not> startswith v ''${'' then
              (if length v > 0 \<and> lower v \<notin> set placeholders
               then secret_finding compose_file service_name env_key
               else skip)
            else skip
        | _ \<Rightarrow> skip)
     else skip)"

definition env_var_findings :: "string \<Rightarrow> yaml \<Rightarrow> yaml \<Rightarrow> yaml \<Rightarrow> emit" where
  "env_var_findings compose_file service_name env_key env_value =
     for_each (env_pattern_findings compose_file service_name env_key env_value) secret_patterns"

definition environment_service :: "string \<Rightarrow> yaml \<Rightarrow> yaml \<Rightarrow> emit" where
  "environment_service compose_file service_name service_config =
     try_val (py_get service_config ''environment'' (YDict [])) (\<lambda>environment.
     try_val (env_vars_of environment) (\<lambda>env_vars.
     for_each (\<lambda>(env_key, env_value).
       env_var_findings compose_file service_name env_key env_value) env_vars))"

definition check_environment_variables :: "string \<Rightarrow> yaml \<Rightarrow> emit" where
  "check_environment_variables compose_file compose_data =
     for_services compose_data (environment_service compose_file)"

subsection \<open>\<open>check_user_configuration\<close>\<close>

definition user_service :: "string \<Rightarrow> yaml \<Rightarrow> yaml \<Rightarrow> emit" where
  "user_service compose_file service_name service_config =
     try_val (py_get service_config ''user'' YNone) (\<lambda>user.
     if user = YStr ''root'' \<or> user = YStr ''0''
     then add_finding MEDIUM ''Container Security''
            (service_msg service_name '' explicitly runs as root'') compose_file
     else if user = YNone
     then add_finding LOW ''Container Security''
            (service_msg service_name '' doesn't specify user (may run as root)'') compose_file
     else skip)"

definition check_user_configuration :: "string \<Rightarrow> yaml \<Rightarrow> emit" where
  "check_user_configuration compose_file compose_data =
     for_services compose_data (user_service compose_file)"

subsection \<open>\<open>check_security_options\<close>\<close>

definition mentions_mac :: "yaml \<Rightarrow> pyexc + bool" where
  "mentions_mac opt =
     (case py_lower opt of
        Inl e \<Rightarrow> Inl e
      | Inr l \<Rightarrow> Inr (contains l ''apparmor'' \<or> contains l ''selinux''))"

definition security_options_service :: "string \<Rightarrow> yaml \<Rightarrow> yaml \<Rightarrow> emit" where
  "security_options_service compose_file service_name service_config =
     try_val (py_get service_config ''security_opt'' (YList [])) (\<lambda>security_opt.
     try_val (py_iter security_opt) (\<lambda>opts.
     try_val (py_any (str_in ''no-new-privileges:true'') opts) (\<lambda>has_no_new_privileges.
     seq (if \<not> has_no_new_privileges
          then add_finding LOW ''Container Security''
                 (service_msg service_name
                    ('' missing '' @ [sq] @ ''no-new-privileges:true'' @ [sq] @ '' security option''))
                 compose_file
          else skip)
     (try_val (py_iter security_opt) (\<lambda>opts'.
      try_val (py_any mentions_mac opts') (\<lambda>has_mandatory_access_control.
      if \<not> has_mandatory_access_control
      then add_finding INFO ''Container Security''
             (service_msg service_name '' could benefit from AppArmor/SELinux profile'')
             compose_file
      else skip))))))"

definition check_security_options :: "string \<Rightarrow> yaml \<Rightarrow> emit" where
  "check_security_options compose_file compose_data =
     for_services compose_data (security_options_service compose_file)"

subsection \<open>\<open>check_network_security\<close>\<close>

definition network_service :: "string \<Rightarrow> yaml \<Rightarrow> yaml \<Rightarrow> emit" where
  "network_service compose_file service_name service_config =
     try_val (py_get service_config ''networks'' (YList [])) (\<lambda>service_networks.
     try_val (if truthy service_networks then Inr False
              else (case str_in ''network_mode'' service_config of
                      Inl e \<Rightarrow> Inl e
                    | Inr b \<Rightarrow> Inr (\<not> b))) (\<lambda>default_network.
     if default_network
     then add_finding LOW ''Network Security''
            (service_msg service_name '' uses default network (consider explicit network)'')
            compose_file
     else skip))"

definition external_network :: "string \<Rightarrow> yaml \<Rightarrow> yaml \<Rightarrow> emit" where
  "external_network compose_file network_name network_config =
     try_val (py_get network_config ''external'' (YBool False)) (\<lambda>external.
     if truthy external
     then add_finding INFO ''Network Security''
            (''Network '' @ [sq] @ py_str network_name @ [sq]
               @ '' is external - ensure it's properly secured'')
            compose_file
     else skip)"

definition check_network_security :: "string \<Rightarrow> yaml \<Rightarrow> emit" where
  "check_network_security compose_file compose_data =
     try_val (py_get compose_data ''services'' (YDict [])) (\<lambda>services.
     try_val (py_get compose_data ''networks'' (YDict [])) (\<lambda>networks.
     seq (try_val (py_items services) (\<lambda>items.
            for_each (\<lambda>(service_name, service_config).
              network_service compose_file service_name service_config) items))
         (try_val (py_items networks) (\<lambda>nets.
            for_each (\<lambda>(network_name, network_config).
              external_network compose_file network_name network_config) nets))))"

subsection \<open>\<open>check_port_exposure\<close>\<close>

definition dangerous_ports :: "string list" where
  "dangerous_ports = [''22'', ''23'', ''80'', ''443'', ''3389'', ''5432'', ''3306'']"

text \<open>\<open>str(port).split(':')[-1].split('/')[0]\<close>\<close>

definition port_num :: "yaml \<Rightarrow> string" where
  "port_num port = hd (split_on CHR ''/'' (last (split_on CHR '':'' (py_str port))))"

definition all_interfaces :: "string \<Rightarrow> bool" where
  "all_interfaces port \<longleftrightarrow>
     startswith port ''0.0.0.0:'' \<or> \<not> contains port '':'' \<or> count_char CHR '':'' port = 1"

definition port_findings :: "string \<Rightarrow> yaml \<Rightarrow> yaml \<Rightarrow> emit" where
  "port_findings compose_file service_name port =
     seq (case port of
            YStr p \<Rightarrow>
              if all_interfaces p
              then add_finding MEDIUM ''Network Security''
                     (service_msg service_name ('' exposes port '' @ p @ '' to all interfaces''))
                     compose_file
              else skip
          | _ \<Rightarrow> skip)
         (if port_num port \<in> set dangerous_ports
          then add_finding MEDIUM ''Network Security''
                 (service_msg service_name ('' exposes sensitive port '' @ port_num port))
                 compose_file
          else skip)"

definition port_service :: "string \<Rightarrow> yaml \<Rightarrow> yaml \<Rightarrow> emit" where
  "port_service compose_file service_name service_config =
     try_val (py_get service_config ''ports'' (YList [])) (\<lambda>ports.
     try_val (py_iter ports) (\<lambda>ps.
     for_each (port_findings compose_file service_name) ps))"

definition check_port_exposure :: "string \<Rightarrow> yaml \<Rightarrow> emit" where
  "check_port_exposure compose_file compose_data =
     for_services compose_data (port_service compose_file)"

subsection \<open>\<open>check_restart_policies\<close>\<close>

definition restart_service :: "string \<Rightarrow> yaml \<Rightarrow> yaml \<Rightarrow> emit" where
  "restart_service compose_file service_name service_config =
     try_val (py_get service_config ''restart'' YNone) (\<lambda>restart.
     if restart = YStr ''always''
     then add_finding LOW ''Container Security''
            (service_msg service_name
               ('' uses '' @ [sq] @ ''always'' @ [sq] @ '' restart (consider '' @ [sq]
                  @ ''unless-stopped'' @ [sq] @ '')''))
            compose_file
     else skip)"

definition check_restart_policies :: "string \<Rightarrow> yaml \<Rightarrow> emit" where
  "check_restart_policies compose_file compose_data =
     for_services compose_data (restart_service compose_file)"

subsection \<open>\<open>check_image_security\<close>\<close>

definition trusted_registries :: "string list" where
  "trusted_registries =
     [''docker.io'', ''ghcr.io'', ''quay.io'', ''registry.redhat.io'', ''mcr.microsoft.com'',
      ''gcr.io'']"

definition latest_finding :: "string \<Rightarrow> yaml \<Rightarrow> emit" where
  "latest_finding compose_file service_name =
     add_finding LOW ''Image Security''
       (service_msg service_name
          ('' uses '' @ [sq] @ ''latest'' @ [sq] @ '' tag or no tag specified''))
       compose_file"

definition untrusted_finding :: "string \<Rightarrow> yaml \<Rightarrow> emit" where
  "untrusted_finding compose_file service_name =
     add_finding MEDIUM ''Image Security''
       (service_msg service_name '' uses image from potentially untrusted registry'')
       compose_file"

definition image_findings :: "string \<Rightarrow> yaml \<Rightarrow> yaml \<Rightarrow> emit" where
  "image_findings compose_file service_name img =
     try_val (py_endswith img '':latest'') (\<lambda>ends_latest.
     try_val (if ends_latest then Inr True
              else (case str_in '':'' img of
                      Inl e \<Rightarrow> Inl e
                    | Inr b \<Rightarrow> Inr (\<not> b))) (\<lambda>unpinned.
     seq (if unpinned then latest_finding compose_file service_name else skip)
     (try_val (str_in ''/'' img) (\<lambda>has_slash.
      try_val (if has_slash
               then (case py_any (\<lambda>reg. str_in reg img) trusted_registries of
                       Inl e \<Rightarrow> Inl e
                     | Inr b \<Rightarrow> Inr (\<not> b))
               else Inr False) (\<lambda>untrusted.
      if untrusted then untrusted_finding compose_file service_name else skip)))))"

definition image_service :: "string \<Rightarrow> yaml \<Rightarrow> yaml \<Rightarrow> emit" where
  "image_service compose_file service_name service_config =
     try_val (py_get service_config ''image'' (YStr [])) (\<lambda>img.
     image_findings compose_file service_name img)"

definition check_image_security :: "string \<Rightarrow> yaml \<Rightarrow> emit" where
  "check_image_security compose_file compose_data =
     for_services compose_data (image_service compose_file)"

section \<open>Auditing a file, the report and the exit status\<close>

text \<open>
  \<open>audit_compose_file\<close> wraps everything in one \<open>try\<close>: reading and parsing the file,
  the test for a \<open>services\<close> key and the ten checks. The result of
  \<open>yaml.safe_load(open(compose_file))\<close> is an input of the model: an exception, or the
  parsed tree.
\<close>

definition error_finding :: "string \<Rightarrow> pyexc \<Rightarrow> finding" where
  "error_finding compose_file e =
     \<lparr>severity = ERROR, category = ''File Processing'',
      message = ''Failed to process '' @ compose_file @ '': '' @ str_exc e,
      filepath = compose_file, line = 0\<rparr>"

text \<open>\<open>not compose_data or 'services' not in compose_data\<close>\<close>

definition nothing_to_audit :: "yaml \<Rightarrow> pyexc + bool" where
  "nothing_to_audit compose_data =
     (if \<not> truthy compose_data then Inr True
      else (case str_in ''services'' compose_data of
              Inl e \<Rightarrow> Inl e
            | Inr b \<Rightarrow> Inr (\<not> b)))"

definition all_checks :: "string \<Rightarrow> yaml \<Rightarrow> emit" where
  "all_checks compose_file compose_data =
     seq (check_privileged_containers compose_file compose_data)
    (seq (check_host_network_mode compose_file compose_data)
    (seq (check_volume_mounts compose_file compose_data)
    (seq (check_environment_variables compose_file compose_data)
    (seq (check_user_configuration compose_file compose_data)
    (seq (check_security_options compose_file compose_data)
    (seq (check_network_security compose_file compose_data)
    (seq (check_port_exposure compose_file compose_data)
    (seq (check_restart_policies compose_file compose_data)
         (check_image_security compose_file compose_data)))))))))"

text \<open>The \<open>try\<close> block with a given body of checks, and its \<open>except\<close> clause.\<close>

definition audit_try :: "(string \<Rightarrow> yaml \<Rightarrow> emit) \<Rightarrow> string \<Rightarrow> pyexc + yaml \<Rightarrow> emit" where
  "audit_try checks compose_file loaded =
     try_val loaded (\<lambda>compose_data.
     try_val (nothing_to_audit compose_data) (\<lambda>stop.
     if stop then skip else checks compose_file compose_data))"

definition except_finding :: "string \<Rightarrow> emit \<Rightarrow> finding list" where
  "except_finding compose_file m =
     (case m of
        (fs, None) \<Rightarrow> fs
      | (fs, Some e) \<Rightarrow> fs @ [error_finding compose_file e])"

text \<open>The findings that auditing one file appends to \<open>self.findings\<close>.\<close>

definition audit_compose_file :: "string \<Rightarrow> pyexc + yaml \<Rightarrow> finding list" where
  "audit_compose_file compose_file loaded =
     except_finding compose_file (audit_try all_checks compose_file loaded)"

text \<open>
  The ten checks as a list, in the order in which \<open>audit_compose_file\<close> calls them, and
  the same \<open>try\<close> block run over an arbitrary list of checks.
\<close>

definition security_checks :: "(string \<Rightarrow> yaml \<Rightarrow> emit) list" where
  "security_checks =
     [check_privileged_containers, check_host_network_mode, check_volume_mounts,
      check_environment_variables, check_user_configuration, check_security_options,
      check_network_security, check_port_exposure, check_restart_policies,
      check_image_security]"

definition run_checks :: "(string \<Rightarrow> yaml \<Rightarrow> emit) list \<Rightarrow> string \<Rightarrow> yaml \<Rightarrow> emit" where
  "run_checks checks compose_file compose_data =
     for_each (\<lambda>check. check compose_file compose_data) checks"

definition audit_with ::
  "(string \<Rightarrow> yaml \<Rightarrow> emit) list \<Rightarrow> string \<Rightarrow> pyexc + yaml \<Rightarrow> finding list" where
  "audit_with checks compose_file loaded =
     except_finding compose_file (audit_try (run_checks checks) compose_file loaded)"

record report =
  findings :: "finding list"
  summary :: "severity \<Rightarrow> nat"
  total_files :: nat
  total_findings :: nat

definition count_severities :: "finding list \<Rightarrow> severity \<Rightarrow> nat" where
  "count_severities fs =
     foldl (\<lambda>severity_counts f.
              severity_counts (severity f := severity_counts (severity f) + 1))
           (\<lambda>_. 0) fs"

text \<open>
  \<open>run_audit\<close> over the compose files found, each given with the result of loading it.
  The auditor starts with an empty list of findings.
\<close>

definition run_audit :: "(string \<times> (pyexc + yaml)) list \<Rightarrow> report" where
  "run_audit compose_files =
     (let self_findings =
            foldl (\<lambda>acc (compose_file, loaded). acc @ audit_compose_file compose_file loaded)
                  [] compose_files
      in \<lparr>findings = self_findings,
          summary = count_severities self_findings,
          total_files = length compose_files,
          total_findings = length self_findings\<rparr>)"

definition exempt_patterns :: "string list" where
  "exempt_patterns = [''docker.sock'', ''host network'', ''port'', ''privileged'']"

text \<open>The loop of \<open>main\<close> that collects \<open>critical_issues\<close>.\<close>

fun critical_issues :: "finding list \<Rightarrow> finding list" where
  "critical_issues [] = []"
| "critical_issues (f # fs) =
     (if severity f = HIGH then
        (if list_ex (\<lambda>pattern. contains (lower (message f)) pattern) exempt_patterns
         then critical_issues fs
         else f # critical_issues fs)
      else critical_issues fs)"

text \<open>The status that \<open>main\<close> passes to \<open>sys.exit\<close> for a report.\<close>

definition exit_status :: "report \<Rightarrow> nat" where
  "exit_status results = (if critical_issues (findings results) \<noteq> [] then 1 else 0)"

definition main :: "(string \<times> (pyexc + yaml)) list \<Rightarrow> nat" where
  "main compose_files = exit_status (run_audit compose_files)"

section \<open>Notions of the specification and example inputs\<close>

text \<open>
  A message contains a keyword case-insensitively when the lower-cased keyword is a
  contiguous part of the lower-cased message.
\<close>

definition contains_ci :: "string \<Rightarrow> string \<Rightarrow> bool" where
  "contains_ci msg kw \<longleftrightarrow> sublist (lower kw) (lower msg)"

text \<open>A compose document with one service, and a reverse proxy that mounts the Docker socket.\<close>

definition one_service :: "yaml \<Rightarrow> (yaml \<times> yaml) list \<Rightarrow> yaml" where
  "one_service service_name service_config =
     YDict [(YStr ''services'', YDict [(service_name, YDict service_config)])]"

definition proxy_doc :: yaml where
  "proxy_doc =
     one_service (YStr ''proxy'')
       [(YStr ''image'', YStr ''traefik:v3.0''),
        (YStr ''volumes'', YList [YStr ''/var/run/docker.sock:/var/run/docker.sock:ro''])]"

definition proxy_report :: report where
  "proxy_report = run_audit [(''docker-compose.yml'', Inr proxy_doc)]"

text \<open>
  Documents on which a check raises: \<open>volumes: 5\<close> stops \<open>check_volume_mounts\<close> and
  \<open>cap_add: 5\<close> stops \<open>check_privileged_containers\<close>, both with a \<open>TypeError\<close>.
\<close>

definition mount_raises_doc :: yaml where
  "mount_raises_doc =
     one_service (YStr ''web'') [(YStr ''network_mode'', YStr ''host''), (YStr ''volumes'', YInt 5)]"

definition cap_raises_doc :: yaml where
  "cap_raises_doc =
     one_service (YStr ''web'') [(YStr ''network_mode'', YStr ''host''), (YStr ''cap_add'', YInt 5)]"

text \<open>The list of checks with the first two exchanged.\<close>

definition swapped_checks :: "(string \<Rightarrow> yaml \<Rightarrow> emit) list" where
  "swapped_checks =
     [check_host_network_mode, check_privileged_containers, check_volume_mounts,
      check_environment_variables, check_user_configuration, check_security_options,
      check_network_security, check_port_exposure, check_restart_policies,
      check_image_security]"

text \<open>All findings that a piece of a check appends satisfy a predicate.\<close>

definition emits_only :: "(finding \<Rightarrow> bool) \<Rightarrow> emit \<Rightarrow> bool" where
  "emits_only P m = list_all P (fst m)"

text \<open>A document with one service \<open>web\<close> that has the given \<open>ports\<close>.\<close>

definition ports_doc :: "yaml list \<Rightarrow> yaml" where
  "ports_doc ports = one_service (YStr ''web'') [(YStr ''ports'', YList ports)]"

text \<open>
  The reading of an image reference \<open>[registry/]path[:tag][@digest]\<close> that the
  specification's data model (registry, repository, tag) refers to, as Docker parses it.
  The digest is cut off, and the tag is what follows the first \<open>:\<close> of the text after
  the last \<open>/\<close>; there is none when that text has no \<open>:\<close>.
\<close>

definition image_tag :: "string \<Rightarrow> string option" where
  "image_tag img =
     (let name = takeWhile (\<lambda>c. c \<noteq> CHR ''@'') img;
          last_component = rev (takeWhile (\<lambda>c. c \<noteq> CHR ''/'') (rev name))
      in if CHR '':'' \<in> set last_component
         then Some (tl (dropWhile (\<lambda>c. c \<noteq> CHR '':'') last_component))
         else None)"

text \<open>
  The text before the first \<open>/\<close> is a registry when it contains \<open>.\<close> or \<open>:\<close> or
  is \<open>localhost\<close>; otherwise it is a namespace on the default registry and the reference
  has no registry component.
\<close>

definition registry_component :: "string \<Rightarrow> string option" where
  "registry_component img =
     (let head_component = takeWhile (\<lambda>c. c \<noteq> CHR ''/'') img
      in if CHR ''/'' \<in> set img
            \<and> (CHR ''.'' \<in> set head_component \<or> CHR '':'' \<in> set head_component
                 \<or> head_component = ''localhost'')
         then Some head_component
         else None)"

text \<open>A document with one service \<open>web\<close> that has the given image.\<close>

definition image_doc :: "string \<Rightarrow> yaml" where
  "image_doc img = one_service (YStr ''web'') [(YStr ''image'', YStr img)]"

text \<open>The same bind mount of \<open>/proc\<close> in the long and in the short form.\<close>

definition long_form_proc_doc :: yaml where
  "long_form_proc_doc =
     one_service (YStr ''web'')
       [(YStr ''volumes'',
         YList [YDict [(YStr ''type'', YStr ''bind''), (YStr ''source'', YStr ''/proc''),
                       (YStr ''target'', YStr ''/host/proc'')]])]"

definition short_form_proc_doc :: yaml where
  "short_form_proc_doc =
     one_service (YStr ''web'') [(YStr ''volumes'', YList [YStr ''/proc:/host/proc'']) ]"

section \<open>Properties\<close>

subsection \<open>String tests against the library notions\<close>

lemma startswith_prefix: "startswith s p \<longleftrightarrow> prefix p s"
  by (induction s p rule: startswith.induct) auto

lemma contains_sublist: "contains s p \<longleftrightarrow> sublist p s"
  by (induction s) (auto simp: startswith_prefix sublist_Cons_right)

lemma endswith_suffix: "endswith s p \<longleftrightarrow> suffix p s"
  by (simp add: endswith_def startswith_prefix suffix_to_prefix)

subsection \<open>The exit status\<close>

lemma lower_exempt: "kw \<in> set exempt_patterns \<Longrightarrow> lower kw = kw"
  by (auto simp: exempt_patterns_def lower_def lower_char_def)

lemma critical_issues_filter:
  "critical_issues fs =
     filter (\<lambda>f. severity f = HIGH
                 \<and> \<not> (\<exists>kw \<in> set exempt_patterns. contains_ci (message f) kw)) fs"
  by (induction fs) (auto simp: list_ex_iff contains_sublist contains_ci_def lower_exempt)

lemma critical_issues_high_only:
  "critical_issues (filter (\<lambda>f. severity f = HIGH) fs) = critical_issues fs"
  by (induction fs) auto

text \<open>
  C1. For every report, \<open>main\<close> exits with status 0 exactly when every HIGH finding has a
  message that contains, case-insensitively, one of the keywords \<open>docker.sock\<close>,
  \<open>host network\<close>, \<open>port\<close>, \<open>privileged\<close>; otherwise it exits with status 1. Findings of
  the other severities do not matter: the status of a report is the status of the report
  with only its HIGH findings kept.
\<close>

theorem exit_status_policy:
  "(exit_status results = 0 \<longleftrightarrow>
      (\<forall>f \<in> set (findings results). severity f = HIGH \<longrightarrow>
         (\<exists>kw \<in> set [''docker.sock'', ''host network'', ''port'', ''privileged''].
            contains_ci (message f) kw)))
   \<and> (exit_status results = 0 \<or> exit_status results = 1)
   \<and> exit_status results =
       exit_status (results\<lparr>findings := filter (\<lambda>f. severity f = HIGH) (findings results)\<rparr>)"
proof -
  have eq: "set [''docker.sock'', ''host network'', ''port'', ''privileged''] = set exempt_patterns"
    by (simp add: exempt_patterns_def)
  show ?thesis
    unfolding eq exit_status_def
    by (auto simp: critical_issues_high_only critical_issues_filter filter_empty_conv)
qed

theorem exit_status_policy_witness:
  "exit_status proxy_report = 0
   \<and> map severity (findings proxy_report) = [HIGH, LOW, LOW, INFO, LOW]
   \<and> contains_ci (message (hd (findings proxy_report))) ''docker.sock''"
proof -
  have sev: "map severity (findings proxy_report) = [HIGH, LOW, LOW, INFO, LOW]"
    by code_simp
  have msg: "contains_ci (message (hd (findings proxy_report))) ''docker.sock''"
    by code_simp
  have "\<forall>f \<in> set (findings proxy_report). severity f = HIGH \<longrightarrow>
          (\<exists>kw \<in> set [''docker.sock'', ''host network'', ''port'', ''privileged''].
             contains_ci (message f) kw)"
    by code_simp
  then have "exit_status proxy_report = 0"
    using exit_status_policy [of proxy_report] by blast
  with sev msg show ?thesis
    by blast
qed

subsection \<open>Sequencing and loops\<close>

lemma seq_skip [simp]: "seq m skip = m" "seq skip m = m"
  by (cases m; cases "snd m"; simp add: skip_def)+

lemma seq_None: "seq a b = (fs, None) \<longleftrightarrow> (\<exists>xs ys. a = (xs, None) \<and> b = (ys, None) \<and> fs = xs @ ys)"
  by (cases a; cases b; cases "snd a"; auto)

lemma fst_seq_ok: "snd a = None \<Longrightarrow> fst (seq a b) = fst a @ fst b"
  by (cases a; cases b; auto)

lemma snd_seq: "snd (seq a b) = (case snd a of Some e \<Rightarrow> Some e | None \<Rightarrow> snd b)"
  by (cases a; cases b; cases "snd a"; auto)

lemma seq_raise: "snd a = Some e \<Longrightarrow> seq a b = a"
  by (cases a; auto)

lemma all_checks_run: "all_checks = run_checks security_checks"
  by (rule ext)+ (simp add: all_checks_def run_checks_def security_checks_def)

lemma for_each_ok:
  "snd (for_each body xs) = None \<longleftrightarrow> (\<forall>x \<in> set xs. snd (body x) = None)"
  by (induction xs) (auto simp: skip_def snd_seq split: option.splits)

lemma for_each_findings:
  "\<forall>x \<in> set xs. snd (body x) = None \<Longrightarrow>
   fst (for_each body xs) = concat (map (\<lambda>x. fst (body x)) xs)"
  by (induction xs) (auto simp: skip_def fst_seq_ok)

lemma for_each_append:
  "for_each body (xs @ ys) = seq (for_each body xs) (for_each body ys)"
proof (induction xs)
  case Nil then show ?case by simp
next
  case (Cons x xs)
  have assoc: "seq (seq a b) c = seq a (seq b c)" for a b c
    by (cases a; cases b; cases c; cases "snd a"; cases "snd b"; auto)
  show ?case using Cons by (simp add: assoc)
qed

lemma for_each_raise:
  assumes "\<forall>x \<in> set xs. snd (body x) = None" and "body y = (gs, Some e)"
  shows "for_each body (xs @ y # ys) = (concat (map (\<lambda>x. fst (body x)) xs) @ gs, Some e)"
proof -
  have a: "for_each body xs = (concat (map (\<lambda>x. fst (body x)) xs), None)"
    using assms(1) for_each_findings[of xs body] for_each_ok[of body xs]
    by (metis prod.collapse)
  show ?thesis
    by (simp add: for_each_append a assms(2))
qed

lemma for_each_total:
  "\<forall>x \<in> set xs. snd (body x) = None \<Longrightarrow>
   for_each body xs = (concat (map (\<lambda>x. fst (body x)) xs), None)"
  using for_each_findings [of xs body] for_each_ok [of body xs]
  by (simp add: prod_eq_iff)

subsection \<open>What the checks can emit\<close>

lemma emits_skip: "emits_only P skip"
  by (simp add: emits_only_def skip_def)
lemma emits_add: "P \<lparr>severity = sev, category = cat, message = msg, filepath = fp, line = 0\<rparr> \<Longrightarrow> emits_only P (add_finding sev cat msg fp)"
  by (simp add: emits_only_def add_finding_def)
lemma emits_seq: "emits_only P a \<Longrightarrow> emits_only P b \<Longrightarrow> emits_only P (seq a b)"
  by (cases a; cases b; cases "snd a"; auto simp: emits_only_def)
lemma emits_try: "(\<And>v. emits_only P (f v)) \<Longrightarrow> emits_only P (try_val x f)"
  by (cases x) (auto simp: try_val_def emits_only_def)
lemma emits_for: "(\<And>x. emits_only P (body x)) \<Longrightarrow> emits_only P (for_each body xs)"
  by (induction xs) (auto intro: emits_seq emits_skip)
lemma emits_if: "emits_only P a \<Longrightarrow> emits_only P b \<Longrightarrow> emits_only P (if c then a else b)"
  by simp
lemma emits_services: "(\<And>n c. emits_only P (body n c)) \<Longrightarrow> emits_only P (for_services d body)"
  unfolding for_services_def by (intro emits_try emits_for) (auto)
lemma emits_case_yaml:
  "(\<And>s. emits_only P (f s)) \<Longrightarrow> emits_only P g \<Longrightarrow> emits_only P (case v of YStr s \<Rightarrow> f s | _ \<Rightarrow> g)"
  by (cases v) auto

lemma emits_prod: "(\<And>a b. emits_only P (f a b)) \<Longrightarrow> emits_only P (case x of (a, b) \<Rightarrow> f a b)"
  by (cases x) simp

lemmas emits_intros = emits_skip emits_seq emits_try emits_for emits_if emits_services emits_add
  emits_prod emits_case_yaml


lemma no_error_privileged: "emits_only (\<lambda>f. severity f \<noteq> ERROR) (check_privileged_containers f d)"
  unfolding check_privileged_containers_def privileged_service_def
  by (intro emits_intros) simp_all
lemma no_error_host_network: "emits_only (\<lambda>f. severity f \<noteq> ERROR) (check_host_network_mode f d)"
  unfolding check_host_network_mode_def host_network_service_def
  by (intro emits_intros) simp_all
lemma no_error_volume: "emits_only (\<lambda>f. severity f \<noteq> ERROR) (check_volume_mounts f d)"
  unfolding check_volume_mounts_def volume_service_def
  apply (intro emits_intros)
  subgoal for n c v vs x
    unfolding volume_findings_def Let_def
    by (cases x) (auto intro!: emits_intros split: if_splits)
  done
lemma no_error_environment: "emits_only (\<lambda>f. severity f \<noteq> ERROR) (check_environment_variables f d)"
  unfolding check_environment_variables_def environment_service_def env_var_findings_def env_pattern_findings_def secret_finding_def
  by (intro emits_intros) simp_all
lemma no_error_user: "emits_only (\<lambda>f. severity f \<noteq> ERROR) (check_user_configuration f d)"
  unfolding check_user_configuration_def user_service_def
  by (intro emits_intros) simp_all
lemma no_error_security_options: "emits_only (\<lambda>f. severity f \<noteq> ERROR) (check_security_options f d)"
  unfolding check_security_options_def security_options_service_def
  by (intro emits_intros) simp_all
lemma no_error_network: "emits_only (\<lambda>f. severity f \<noteq> ERROR) (check_network_security f d)"
  unfolding check_network_security_def network_service_def external_network_def
  by (intro emits_intros) simp_all
lemma no_error_port: "emits_only (\<lambda>f. severity f \<noteq> ERROR) (check_port_exposure f d)"
  unfolding check_port_exposure_def port_service_def port_findings_def
  by (intro emits_intros) simp_all
lemma no_error_restart: "emits_only (\<lambda>f. severity f \<noteq> ERROR) (check_restart_policies f d)"
  unfolding check_restart_policies_def restart_service_def
  by (intro emits_intros) simp_all
lemma no_error_image: "emits_only (\<lambda>f. severity f \<noteq> ERROR) (check_image_security f d)"
  unfolding check_image_security_def image_service_def image_findings_def latest_finding_def untrusted_finding_def
  by (intro emits_intros) simp_all

subsection \<open>Exceptions inside a check\<close>

lemma audit_compose_file_with: "audit_compose_file = audit_with security_checks"
  by (rule ext)+ (simp add: audit_compose_file_def audit_with_def all_checks_run)

text \<open>
  C3 as stated does not hold. On \<open>cap_raises_doc\<close> the first check raises on service
  \<open>web\<close>; the audit of the file then consists of a single ERROR finding whose message
  names the file and the exception but not the service, and the MEDIUM finding that
  \<open>check_host_network_mode\<close> has for the same service is not produced.
\<close>

theorem rule_exception_counterexample:
  "snd (check_privileged_containers ''docker-compose.yml'' cap_raises_doc) \<noteq> None
   \<and> map severity (audit_compose_file ''docker-compose.yml'' (Inr cap_raises_doc)) = [ERROR]
   \<and> \<not> contains (message (hd (audit_compose_file ''docker-compose.yml'' (Inr cap_raises_doc)))) ''web''
   \<and> check_host_network_mode ''docker-compose.yml'' cap_raises_doc =
       ([\<lparr>severity = MEDIUM, category = ''Network Security'',
          message = ''Service 'web' uses host network mode'',
          filepath = ''docker-compose.yml'', line = 0\<rparr>], None)
   \<and> \<not> set (fst (check_host_network_mode ''docker-compose.yml'' cap_raises_doc))
         \<subseteq> set (audit_compose_file ''docker-compose.yml'' (Inr cap_raises_doc))"
  by code_simp

text \<open>
  C3, amended. The exception of a check is caught once per file, by the \<open>try\<close> of
  \<open>audit_compose_file\<close>: when the checks before it do not raise and a check raises
  after appending \<open>gs\<close>, the file contributes the findings of the earlier checks, then
  \<open>gs\<close>, then exactly one ERROR finding of category \<open>File Processing\<close> that names the
  file and the exception. The rest of that check and the checks after it are not evaluated
  for this file.
\<close>

theorem exception_caught_per_file:
  assumes "security_checks = before @ check # after"
      and "\<forall>c \<in> set before. snd (c compose_file compose_data) = None"
      and "check compose_file compose_data = (gs, Some e)"
      and "nothing_to_audit compose_data = Inr False"
  shows "audit_compose_file compose_file (Inr compose_data) =
           concat (map (\<lambda>c. fst (c compose_file compose_data)) before) @ gs
             @ [error_finding compose_file e]
       \<and> filter (\<lambda>f. severity f = ERROR) (audit_compose_file compose_file (Inr compose_data)) =
           [error_finding compose_file e]"
proof -
  let ?pre = "concat (map (\<lambda>c. fst (c compose_file compose_data)) before)"
  have run: "all_checks compose_file compose_data = (?pre @ gs, Some e)"
    unfolding all_checks_run run_checks_def assms(1)
    using for_each_raise [of before "\<lambda>c. c compose_file compose_data" check gs e after] assms(2,3)
    by simp
  then have eq: "audit_compose_file compose_file (Inr compose_data) = ?pre @ gs @ [error_finding compose_file e]"
    by (simp add: audit_compose_file_def audit_try_def try_val_def assms(4) except_finding_def)
  have "emits_only (\<lambda>f. severity f \<noteq> ERROR) (all_checks compose_file compose_data)"
    unfolding all_checks_def by (intro emits_seq no_error_privileged no_error_host_network no_error_volume
        no_error_environment no_error_user no_error_security_options no_error_network
        no_error_port no_error_restart no_error_image)
  then have "filter (\<lambda>f. severity f = ERROR) (?pre @ gs) = []"
    by (simp add: run emits_only_def filter_empty_conv list_all_iff)
  then have "filter (\<lambda>f. severity f = ERROR) (?pre @ gs @ [error_finding compose_file e]) =
               [error_finding compose_file e]"
    by (simp add: error_finding_def)
  with eq show ?thesis
    by simp
qed

theorem exception_caught_per_file_witness:
  "map severity (audit_compose_file ''docker-compose.yml'' (Inr mount_raises_doc)) = [MEDIUM, ERROR]
   \<and> map category (audit_compose_file ''docker-compose.yml'' (Inr mount_raises_doc)) =
       [''Network Security'', ''File Processing'']"
proof -
  let ?f = "''docker-compose.yml''"
  have h1: "security_checks =
      [check_privileged_containers, check_host_network_mode] @ check_volume_mounts #
      [check_environment_variables, check_user_configuration, check_security_options,
       check_network_security, check_port_exposure, check_restart_policies, check_image_security]"
    by (simp add: security_checks_def)
  have a: "snd (check_privileged_containers ?f mount_raises_doc) = None"
    by code_simp
  have b: "snd (check_host_network_mode ?f mount_raises_doc) = None"
    by code_simp
  have h2: "\<forall>c \<in> set [check_privileged_containers, check_host_network_mode].
              snd (c ?f mount_raises_doc) = None"
    using a b by simp
  have h3: "check_volume_mounts ?f mount_raises_doc =
              ([], Some (TypeError (CHR 0x27 # ''int'' @ CHR 0x27 # '' object is not iterable'')))"
    by code_simp
  have h4: "nothing_to_audit mount_raises_doc = Inr False"
    by code_simp
  have c: "map severity (fst (check_privileged_containers ?f mount_raises_doc)) = []"
    by code_simp
  have d: "map severity (fst (check_host_network_mode ?f mount_raises_doc)) = [MEDIUM]"
    by code_simp
  have c': "map category (fst (check_privileged_containers ?f mount_raises_doc)) = []"
    by code_simp
  have d': "map category (fst (check_host_network_mode ?f mount_raises_doc)) = [''Network Security'']"
    by code_simp
  show ?thesis
    using exception_caught_per_file [OF h1 h2 h3 h4] c d c' d'
    by (simp add: error_finding_def)
qed

subsection \<open>The order of the checks\<close>

lemma mset_concat_map: "mset (concat (map g xs)) = (\<Sum>x \<in># mset xs. mset (g x))"
  by (induction xs) auto

text \<open>
  C9 as stated does not hold. On \<open>cap_raises_doc\<close>, \<open>check_privileged_containers\<close>
  raises: run first, it leaves only the ERROR finding; run after
  \<open>check_host_network_mode\<close>, the MEDIUM finding of that check is there as well.
\<close>

theorem check_order_counterexample:
  "mset swapped_checks = mset security_checks
   \<and> map severity (audit_compose_file ''docker-compose.yml'' (Inr cap_raises_doc)) = [ERROR]
   \<and> map severity (audit_with swapped_checks ''docker-compose.yml'' (Inr cap_raises_doc)) =
       [MEDIUM, ERROR]
   \<and> mset (audit_with swapped_checks ''docker-compose.yml'' (Inr cap_raises_doc)) \<noteq>
       mset (audit_compose_file ''docker-compose.yml'' (Inr cap_raises_doc))"
proof -
  let ?X = "audit_with swapped_checks ''docker-compose.yml'' (Inr cap_raises_doc)"
  let ?Y = "audit_compose_file ''docker-compose.yml'' (Inr cap_raises_doc)"
  have p: "mset swapped_checks = mset security_checks"
    by (simp add: swapped_checks_def security_checks_def)
  have a: "map severity ?Y = [ERROR]"
    by code_simp
  have b: "map severity ?X = [MEDIUM, ERROR]"
    by code_simp
  have "mset ?X \<noteq> mset ?Y"
  proof
    assume "mset ?X = mset ?Y"
    then have "size (mset ?X) = size (mset ?Y)"
      by (rule arg_cong)
    then have "length (map severity ?X) = length (map severity ?Y)"
      by (simp only: size_mset length_map)
    then show False
      unfolding a b by simp
  qed
  with p a b show ?thesis
    by (intro conjI)
qed

text \<open>
  C9, amended. For every document on which none of the ten checks raises, every
  permutation of the order of the checks gives the same findings as a multiset.
\<close>

theorem check_order_irrelevant_without_exception:
  assumes "mset checks = mset security_checks"
      and "\<forall>c \<in> set security_checks. snd (c compose_file compose_data) = None"
  shows "mset (audit_with checks compose_file (Inr compose_data)) =
         mset (audit_compose_file compose_file (Inr compose_data))"
proof -
  let ?out = "\<lambda>c. fst (c compose_file compose_data)"
  have same: "set checks = set security_checks"
    using assms(1) by (rule mset_eq_setD)
  have r1: "run_checks checks compose_file compose_data = (concat (map ?out checks), None)"
    unfolding run_checks_def using assms(2) same by (intro for_each_total) simp
  have r2: "run_checks security_checks compose_file compose_data =
              (concat (map ?out security_checks), None)"
    unfolding run_checks_def using assms(2) by (intro for_each_total) simp
  have m: "mset (concat (map ?out checks)) = mset (concat (map ?out security_checks))"
    by (simp only: mset_concat_map assms(1))
  show ?thesis
  proof (cases "nothing_to_audit compose_data")
    case (Inl e)
    then show ?thesis
      by (simp add: audit_compose_file_with audit_with_def audit_try_def try_val_def)
  next
    case (Inr stop)
    then show ?thesis
      using m
      by (simp add: audit_compose_file_with audit_with_def audit_try_def try_val_def r1 r2
            except_finding_def skip_def)
  qed
qed

theorem check_order_irrelevant_without_exception_witness:
  "mset (audit_with (rev security_checks) ''docker-compose.yml'' (Inr proxy_doc)) =
     mset (audit_compose_file ''docker-compose.yml'' (Inr proxy_doc))
   \<and> map severity (audit_with (rev security_checks) ''docker-compose.yml'' (Inr proxy_doc)) =
       [LOW, LOW, INFO, LOW, HIGH]
   \<and> map severity (audit_compose_file ''docker-compose.yml'' (Inr proxy_doc)) =
       [HIGH, LOW, LOW, INFO, LOW]"
proof -
  have h1: "mset (rev security_checks) = mset security_checks"
    by simp
  have h2: "\<forall>c \<in> set security_checks. snd (c ''docker-compose.yml'' proxy_doc) = None"
    unfolding security_checks_def list.set ball_simps
    by (intro conjI; code_simp)
  have a: "map severity (audit_with (rev security_checks) ''docker-compose.yml'' (Inr proxy_doc)) =
       [LOW, LOW, INFO, LOW, HIGH]"
    by code_simp
  have b: "map severity (audit_compose_file ''docker-compose.yml'' (Inr proxy_doc)) =
       [HIGH, LOW, LOW, INFO, LOW]"
    by code_simp
  show ?thesis
    using check_order_irrelevant_without_exception [OF h1 h2] a b by simp
qed

subsection \<open>A file with nothing to audit\<close>

lemma run_audit_findings:
  "findings (run_audit compose_files) =
     concat (map (\<lambda>(compose_file, loaded). audit_compose_file compose_file loaded) compose_files)"
proof -
  have "foldl (\<lambda>acc (compose_file, loaded). acc @ audit_compose_file compose_file loaded) a fs =
        a @ concat (map (\<lambda>(compose_file, loaded). audit_compose_file compose_file loaded) fs)" for a fs
    by (induction fs arbitrary: a) (auto)
  then show ?thesis
    by (simp add: run_audit_def Let_def)
qed

text \<open>
  C8. A file that parses to \<open>None\<close> (an empty document) or to a mapping without a
  \<open>services\<close> key contributes no finding: the report over just that file has no
  findings, \<open>total_findings = 0\<close> and an ERROR count of 0, and in a run over several
  files the findings are those of the other files.
\<close>

theorem no_services_no_findings:
  assumes "compose_data = YNone \<or> (\<exists>kvs. compose_data = YDict kvs \<and> YStr ''services'' \<notin> fst ` set kvs)"
  shows "audit_compose_file compose_file (Inr compose_data) = []
       \<and> findings (run_audit [(compose_file, Inr compose_data)]) = []
       \<and> total_findings (run_audit [(compose_file, Inr compose_data)]) = 0
       \<and> summary (run_audit [(compose_file, Inr compose_data)]) ERROR = 0
       \<and> findings (run_audit (before @ (compose_file, Inr compose_data) # after)) =
           findings (run_audit (before @ after))"
proof -
  have "nothing_to_audit compose_data = Inr True"
    using assms by (auto simp: nothing_to_audit_def truthy_def str_in_def)
  then have a: "audit_compose_file compose_file (Inr compose_data) = []"
    by (simp add: audit_compose_file_def audit_try_def try_val_def except_finding_def skip_def)
  then show ?thesis
    by (simp add: run_audit_findings) (simp add: run_audit_def count_severities_def)
qed

theorem no_services_no_findings_witness:
  "audit_compose_file ''docker-compose.yml'' (Inr YNone) = []
   \<and> total_findings (run_audit [(''docker-compose.yml'', Inr (YDict [(YStr ''version'', YStr ''3'')]))]) = 0
   \<and> findings (run_audit [(''docker-compose.yml'', Inr (YDict [(YStr ''version'', YStr ''3'')]))]) = []"
proof -
  have a: "YNone = YNone \<or> (\<exists>kvs. YNone = YDict kvs \<and> YStr ''services'' \<notin> fst ` set kvs)"
    by simp
  have b: "YDict [(YStr ''version'', YStr ''3'')] = YNone
           \<or> (\<exists>kvs. YDict [(YStr ''version'', YStr ''3'')] = YDict kvs
                     \<and> YStr ''services'' \<notin> fst ` set kvs)"
    by simp
  show ?thesis
    using no_services_no_findings [OF a, of "''docker-compose.yml''" "[]" "[]"]
          no_services_no_findings [OF b, of "''docker-compose.yml''" "[]" "[]"]
    by simp
qed

subsection \<open>Hardcoded secrets\<close>

lemma for_each_cong:
  "(\<And>x. x \<in> set xs \<Longrightarrow> f x = g x) \<Longrightarrow> for_each f xs = for_each g xs"
  by (induction xs) auto

lemma for_each_if_single:
  "for_each (\<lambda>x. if P x then ([F], None) else skip) xs =
     (replicate (length (filter P xs)) F, None)"
  by (induction xs) (auto simp: skip_def)

lemma lower_secret_pattern: "p \<in> set secret_patterns \<Longrightarrow> lower p = p"
  by (auto simp: secret_patterns_def lower_def lower_char_def)

lemma env_var_findings_count:
  assumes "\<not> startswith v ''${''" and "v \<noteq> []"
      and "lower v \<notin> set [''changeme'', ''your-password'', ''example'']"
  shows "env_var_findings compose_file service_name (YStr key) (YStr v) =
           (replicate
              (length (filter (\<lambda>pattern. contains (lower key) pattern)
                 [''password'', ''passwd'', ''secret'', ''key'', ''token'', ''credential'',
                  ''auth'', ''private'']))
              \<lparr>severity = HIGH, category = ''Secret Management'',
               message = service_msg service_name ('' may have hardcoded secret in '' @ key),
               filepath = compose_file, line = 0\<rparr>,
            None)"
proof -
  let ?F = "\<lparr>severity = HIGH, category = ''Secret Management'',
             message = service_msg service_name ('' may have hardcoded secret in '' @ key),
             filepath = compose_file, line = 0\<rparr>"
  have body: "env_pattern_findings compose_file service_name (YStr key) (YStr v) p =
                (if contains (lower key) p then ([?F], None) else skip)"
    if "p \<in> set secret_patterns" for p
    using assms lower_secret_pattern [OF that]
    by (simp add: env_pattern_findings_def try_val_def py_lower_def secret_finding_def
          add_finding_def placeholders_def py_str_def)
  have "env_var_findings compose_file service_name (YStr key) (YStr v) =
          for_each (\<lambda>p. if contains (lower key) p then ([?F], None) else skip) secret_patterns"
    unfolding env_var_findings_def by (rule for_each_cong) (rule body)
  then show ?thesis
    by (simp only: for_each_if_single secret_patterns_def)
qed



text \<open>
  C5. A service whose environment is the single entry \<open>API_KEY=${SECRET_KEY}\<close>, in the
  list form or in the mapping form, gets no finding from the check; with
  \<open>API_KEY=sk_live_abc123\<close> it gets exactly one finding, HIGH and of category
  \<open>Secret Management\<close>. The file, the name of the service and its other keys are
  arbitrary.
\<close>

theorem api_key_examples:
  "check_environment_variables compose_file
     (one_service service_name
        ((YStr ''environment'', YList [YStr ''API_KEY=${SECRET_KEY}'']) # other_config)) = ([], None)
   \<and> check_environment_variables compose_file
     (one_service service_name
        ((YStr ''environment'', YDict [(YStr ''API_KEY'', YStr ''${SECRET_KEY}'')]) # other_config)) = ([], None)
   \<and> check_environment_variables compose_file
     (one_service service_name
        ((YStr ''environment'', YList [YStr ''API_KEY=sk_live_abc123'']) # other_config)) =
       ([\<lparr>severity = HIGH, category = ''Secret Management'',
          message = service_msg service_name '' may have hardcoded secret in API_KEY'',
          filepath = compose_file, line = 0\<rparr>], None)
   \<and> check_environment_variables compose_file
     (one_service service_name
        ((YStr ''environment'', YDict [(YStr ''API_KEY'', YStr ''sk_live_abc123'')]) # other_config)) =
       ([\<lparr>severity = HIGH, category = ''Secret Management'',
          message = service_msg service_name '' may have hardcoded secret in API_KEY'',
          filepath = compose_file, line = 0\<rparr>], None)"
proof -
  have l1: "env_vars_of (YList [YStr ''API_KEY=${SECRET_KEY}'']) =
              Inr [(YStr ''API_KEY'', YStr ''${SECRET_KEY}'')]"
    by code_simp
  have l2: "env_vars_of (YList [YStr ''API_KEY=sk_live_abc123'']) =
              Inr [(YStr ''API_KEY'', YStr ''sk_live_abc123'')]"
    by code_simp
  have d: "env_vars_of (YDict kvs) = Inr kvs" for kvs
    by (simp add: env_vars_of_def)
  have ref: "env_var_findings compose_file service_name (YStr ''API_KEY'') (YStr ''${SECRET_KEY}'') =
               ([], None)"
    by (simp add: env_var_findings_def env_pattern_findings_def secret_patterns_def try_val_def
          py_lower_def skip_def)
  have n: "length (filter (\<lambda>pattern. contains (lower ''API_KEY'') pattern)
                 [''password'', ''passwd'', ''secret'', ''key'', ''token'', ''credential'',
                  ''auth'', ''private'']) = Suc 0"
    by code_simp
  have h3: "lower ''sk_live_abc123'' \<notin> set [''changeme'', ''your-password'', ''example'']"
    by code_simp
  have lit: "env_var_findings compose_file service_name (YStr ''API_KEY'') (YStr ''sk_live_abc123'') =
               ([\<lparr>severity = HIGH, category = ''Secret Management'',
                  message = service_msg service_name '' may have hardcoded secret in API_KEY'',
                  filepath = compose_file, line = 0\<rparr>], None)"
    using env_var_findings_count [OF _ _ h3, of compose_file service_name "''API_KEY''"]
    unfolding n by simp
  have svc: "check_environment_variables compose_file
               (one_service service_name ((YStr ''environment'', environment) # other_config)) =
             try_val (env_vars_of environment) (\<lambda>env_vars.
               for_each (\<lambda>(env_key, env_value).
                 env_var_findings compose_file service_name env_key env_value) env_vars)"
    for environment
    by (simp add: check_environment_variables_def for_services_def one_service_def py_get_def
          py_items_def try_val_def environment_service_def)
  show ?thesis
    unfolding svc l1 l2 d by (simp add: try_val_def ref lit)
qed

subsection \<open>Exposed ports\<close>

lemma str_int_8080: "str_int 8080 = ''8080''"
  by (simp add: str_int_def digits.simps)

lemma check_port_exposure_one_service:
  "check_port_exposure compose_file (one_service service_name [(YStr ''ports'', YList ports)]) =
     for_each (port_findings compose_file service_name) ports"
  by (simp add: check_port_exposure_def for_services_def one_service_def py_get_def py_items_def
        try_val_def port_service_def py_iter_def)

lemma port_num_8080: "port_num (YInt 8080) = ''8080''"
  by (simp add: port_num_def py_str_def str_int_8080)

text \<open>
  C4. The test for a binding to all interfaces is made for string entries only. The integer
  entry \<open>8080\<close>, a binding with no host interface, gets no finding, while the same
  binding written as the string \<open>8080\<close> gets the MEDIUM \<open>Network Security\<close> finding.
  The test for a sensitive port reads the text after the last \<open>:\<close>, the container port:
  \<open>127.0.0.1:22:2222\<close>, which binds host port 22, gets no finding.
\<close>

theorem integer_port_not_flagged:
  "check_port_exposure ''docker-compose.yml'' (ports_doc [YInt 8080]) = ([], None)
   \<and> check_port_exposure ''docker-compose.yml'' (ports_doc [YStr ''8080'']) =
       ([\<lparr>severity = MEDIUM, category = ''Network Security'',
          message = ''Service 'web' exposes port 8080 to all interfaces'',
          filepath = ''docker-compose.yml'', line = 0\<rparr>], None)
   \<and> check_port_exposure ''docker-compose.yml'' (ports_doc [YStr ''127.0.0.1:22:2222'']) =
       ([], None)"
proof -
  have a: "check_port_exposure ''docker-compose.yml'' (ports_doc [YInt 8080]) = ([], None)"
    by (simp add: ports_doc_def check_port_exposure_one_service port_findings_def port_num_8080
          dangerous_ports_def skip_def)
  have b: "check_port_exposure ''docker-compose.yml'' (ports_doc [YStr ''8080'']) =
       ([\<lparr>severity = MEDIUM, category = ''Network Security'',
          message = ''Service 'web' exposes port 8080 to all interfaces'',
          filepath = ''docker-compose.yml'', line = 0\<rparr>], None)"
    by code_simp
  have c: "check_port_exposure ''docker-compose.yml'' (ports_doc [YStr ''127.0.0.1:22:2222'']) =
       ([], None)"
    by code_simp
  from a b c show ?thesis
    by (intro conjI)
qed

subsection \<open>Dangerous mounts\<close>

text \<open>
  C2. The long form of a mount does not tell the Docker socket from the other sensitive
  paths: a long-form bind mount of \<open>/proc\<close> is reported with severity HIGH, while the same
  mount in the short form is reported with severity MEDIUM.
\<close>

theorem long_form_mount_is_high:
  "check_volume_mounts ''docker-compose.yml'' long_form_proc_doc =
     ([\<lparr>severity = HIGH, category = ''Volume Security'',
        message = ''Service 'web' mounts dangerous path: /proc'',
        filepath = ''docker-compose.yml'', line = 0\<rparr>], None)
   \<and> check_volume_mounts ''docker-compose.yml'' short_form_proc_doc =
     ([\<lparr>severity = MEDIUM, category = ''Volume Security'',
        message = ''Service 'web' mounts dangerous path: /proc'',
        filepath = ''docker-compose.yml'', line = 0\<rparr>], None)"
  by code_simp

subsection \<open>Image references\<close>

text \<open>
  C6. The check looks for \<open>:\<close> anywhere in the image string. The reference
  \<open>localhost:5000/nginx\<close> has no tag, but the \<open>:\<close> of its registry port keeps the
  check from emitting the LOW \<open>Image Security\<close> finding for an unpinned tag; its only
  finding is the one for the registry. The reference \<open>nginx\<close>, also without a tag,
  gets exactly that LOW finding.
\<close>

theorem registry_port_image_not_flagged:
  "image_tag ''localhost:5000/nginx'' = None
   \<and> check_image_security ''docker-compose.yml'' (image_doc ''localhost:5000/nginx'') =
       ([\<lparr>severity = MEDIUM, category = ''Image Security'',
          message = ''Service 'web' uses image from potentially untrusted registry'',
          filepath = ''docker-compose.yml'', line = 0\<rparr>], None)
   \<and> image_tag ''nginx'' = None
   \<and> check_image_security ''docker-compose.yml'' (image_doc ''nginx'') =
       ([\<lparr>severity = LOW, category = ''Image Security'',
          message = ''Service 'web' uses 'latest' tag or no tag specified'',
          filepath = ''docker-compose.yml'', line = 0\<rparr>], None)"
proof -
  have a: "image_tag ''localhost:5000/nginx'' = None"
    by code_simp
  have b: "check_image_security ''docker-compose.yml'' (image_doc ''localhost:5000/nginx'') =
       ([\<lparr>severity = MEDIUM, category = ''Image Security'',
          message = ''Service 'web' uses image from potentially untrusted registry'',
          filepath = ''docker-compose.yml'', line = 0\<rparr>], None)"
    by code_simp
  have c: "image_tag ''nginx'' = None"
    by code_simp
  have d: "check_image_security ''docker-compose.yml'' (image_doc ''nginx'') =
       ([\<lparr>severity = LOW, category = ''Image Security'',
          message = ''Service 'web' uses 'latest' tag or no tag specified'',
          filepath = ''docker-compose.yml'', line = 0\<rparr>], None)"
    by code_simp
  from a b c d show ?thesis
    by (intro conjI)
qed

text \<open>
  C7. The check looks for the allowlisted names anywhere in the image string. The
  registries \<open>mygcr.io\<close> and \<open>evil.example.com\<close> are not in the allowlist, but
  \<open>gcr.io\<close> occurs inside the first and \<open>docker.io\<close> in the path after the second,
  and neither image gets the MEDIUM \<open>Image Security\<close> finding for an untrusted
  registry. The registry \<open>registry.example.com\<close>, in which no allowlisted name occurs,
  gets it.
\<close>

theorem trusted_substring_not_flagged:
  "registry_component ''mygcr.io/app:1.0'' = Some ''mygcr.io''
   \<and> ''mygcr.io'' \<notin> set trusted_registries
   \<and> check_image_security ''docker-compose.yml'' (image_doc ''mygcr.io/app:1.0'') = ([], None)
   \<and> registry_component ''evil.example.com/docker.io/nginx:1.0'' = Some ''evil.example.com''
   \<and> ''evil.example.com'' \<notin> set trusted_registries
   \<and> check_image_security ''docker-compose.yml''
         (image_doc ''evil.example.com/docker.io/nginx:1.0'') = ([], None)
   \<and> registry_component ''registry.example.com/app:1.0'' = Some ''registry.example.com''
   \<and> check_image_security ''docker-compose.yml'' (image_doc ''registry.example.com/app:1.0'') =
       ([\<lparr>severity = MEDIUM, category = ''Image Security'',
          message = ''Service 'web' uses image from potentially untrusted registry'',
          filepath = ''docker-compose.yml'', line = 0\<rparr>], None)"
proof -
  have a: "registry_component ''mygcr.io/app:1.0'' = Some ''mygcr.io''"
    by code_simp
  have b: "''mygcr.io'' \<notin> set trusted_registries"
    by code_simp
  have c: "check_image_security ''docker-compose.yml'' (image_doc ''mygcr.io/app:1.0'') = ([], None)"
    by code_simp
  have d: "registry_component ''evil.example.com/docker.io/nginx:1.0'' = Some ''evil.example.com''"
    by code_simp
  have e: "''evil.example.com'' \<notin> set trusted_registries"
    by code_simp
  have f: "check_image_security ''docker-compose.yml''
             (image_doc ''evil.example.com/docker.io/nginx:1.0'') = ([], None)"
    by code_simp
  have g: "registry_component ''registry.example.com/app:1.0'' = Some ''registry.example.com''"
    by code_simp
  have h: "check_image_security ''docker-compose.yml'' (image_doc ''registry.example.com/app:1.0'') =
       ([\<lparr>severity = MEDIUM, category = ''Image Security'',
          message = ''Service 'web' uses image from potentially untrusted registry'',
          filepath = ''docker-compose.yml'', line = 0\<rparr>], None)"
    by code_simp
  from a b c d e f g h show ?thesis
    by (intro conjI)
qed

end
